theory Spec2Isabelle
  imports Main "HOL-Library.Word"
begin

unbundle bit_operations_syntax

section \<open>JavaScript strings and the operators the add-on applies to them\<close>

text \<open>
  A JavaScript string is a sequence of 16-bit code units. \<open>str\<close> embeds a literal of the
  source. \<open>truthy\<close> is the test of \<open>if (x)\<close> and \<open>!!x\<close> on a value of type
  \<open>string | undefined\<close>: \<open>undefined\<close> and the empty string are falsy. \<open>nullish_or\<close> is
  the operator \<open>??\<close>.
\<close>

type_synonym jsstring = "16 word list"

definition str :: "string \<Rightarrow> jsstring" where
  "str s = map of_char s"

definition truthy :: "jsstring option \<Rightarrow> bool" where
  "truthy v = (case v of None \<Rightarrow> False | Some s \<Rightarrow> s \<noteq> [])"

definition nullish_or :: "jsstring option \<Rightarrow> jsstring \<Rightarrow> jsstring" where
  "nullish_or v d = (case v of None \<Rightarrow> d | Some s \<Rightarrow> s)"

section \<open>Data model\<close>

record BootstrapRepository =
  URL :: jsstring
  branch :: jsstring
  path :: jsstring
  secretName :: "jsstring option"
  privateKey :: "jsstring option"
  publicKey :: "jsstring option"
  knownHosts :: "jsstring option"

record WeaveGitOpsAddOn =
  namespace :: jsstring
  bootstrapRepository :: BootstrapRepository

definition new_WeaveGitOpsAddOn :: "BootstrapRepository \<Rightarrow> jsstring option \<Rightarrow> WeaveGitOpsAddOn" where
  "new_WeaveGitOpsAddOn repo ns =
     \<lparr>namespace = nullish_or ns (str ''wego-system''), bootstrapRepository = repo\<rparr>"

record ClusterInfo =
  clusterName :: jsstring

text \<open>The entries of \<open>values.applications\<close> and the arguments of one \<open>addHelmChart\<close> call.\<close>

datatype application = Application
  (applicationName: jsstring)
  (gitRepository: jsstring)
  (app_privateKey: jsstring)
  (app_knownHosts: jsstring)
  (app_path: jsstring)
  (app_branch: jsstring)

datatype HelmChart = HelmChart
  (chart_id: jsstring)
  (chart: jsstring)
  (repository: jsstring)
  (version: jsstring)
  (chart_namespace: jsstring)
  (chart_values: "application list option")

section \<open>The collaborators: Secrets Manager, JSON.parse, the cluster\<close>

text \<open>
  What the Secrets Manager client hands to the callback of \<open>getSecretValue\<close>: an error
  with its \<open>code\<close>, or the response. In a response, \<open>has_SecretString\<close> is
  \<open>'SecretString' in data\<close>, and \<open>SecretBinary_text\<close> is the text of
  \<open>data.SecretBinary\<close> under \<open>toString()\<close> (\<open>None\<close> where the property is undefined).
\<close>

datatype AWSError = AWSError (code: jsstring)

record GetSecretValueResponse =
  has_SecretString :: bool
  SecretString :: "jsstring option"
  SecretBinary_text :: "jsstring option"

datatype store_reply = Failure AWSError | Success GetSecretValueResponse

text \<open>
  When the client runs the callback: before \<open>getSecretValue\<close> returns (a synchronous test
  double), or in a later turn of the event loop, after the calling code has run to its end
  (a client that talks to the service over the network).
\<close>

datatype delivery = Immediate store_reply | Deferred store_reply

text \<open>
  The result of \<open>JSON.parse\<close> as the resolver reads it: \<open>null\<close>, on which a property read
  throws, or a value with its string-valued members (the add-on's fields are of type
  \<open>string | undefined\<close>; a value without members has the empty map).
\<close>

datatype json = JSON_null | JSON_value "jsstring \<rightharpoonup> jsstring"

text \<open>
  The values the add-on can catch: the store's error object, the SyntaxError of
  \<open>JSON.parse\<close>, a TypeError, the string \<open>postDeploy\<close> throws itself, an error of the
  cluster with its message, and \<open>Unconvertible e\<close>, a value whose conversion to a string
  throws \<open>e\<close>: a Symbol or an object without a usable \<open>toString\<close> (then \<open>e\<close> is a
  TypeError), or an object whose \<open>toString\<close> throws \<open>e\<close>. \<open>ToString_throws\<close> is what the
  conversion of a value to a string throws, if anything.
\<close>

datatype thrown =
    StoreError AWSError
  | SyntaxError
  | TypeError
  | Message jsstring
  | TargetError jsstring
  | Unconvertible thrown

fun ToString_throws :: "thrown \<Rightarrow> thrown option" where
  "ToString_throws (Unconvertible e) = Some e"
| "ToString_throws err = None"

text \<open>
  The three collaborators are parameters of the model: \<open>JSON_parse\<close> returns \<open>None\<close> where
  \<open>JSON.parse\<close> throws its SyntaxError; \<open>addHelmChart\<close> returns what the call throws, if
  anything.
\<close>

record runtime =
  JSON_parse :: "jsstring \<Rightarrow> json option"
  getSecretValue :: "jsstring \<Rightarrow> delivery"
  addHelmChart :: "HelmChart \<Rightarrow> thrown option"

text \<open>
  The state a call runs in: the add-on object with its mutable repository descriptor, the
  install requests submitted to the cluster so far, the lines written with
  \<open>console.error\<close> (message prefix and the error interpolated into it), and the replies of
  the secret store whose callback has not run yet.
\<close>

datatype log_line = Error_line jsstring thrown

record state =
  addon :: WeaveGitOpsAddOn
  submitted :: "HelmChart list"
  console :: "log_line list"
  pending :: "store_reply list"

type_synonym 'a outcome = "(thrown + 'a) \<times> state"

section \<open>Credential resolver\<close>

text \<open>
  The callback passed to \<open>getSecretValue\<close>, as a function of the reply and of the current
  value of the local variable \<open>secret\<close>: it throws, or leaves a new value in \<open>secret\<close>.
  An error whose code is none of the five listed falls through all branches.
\<close>

definition callback :: "store_reply \<Rightarrow> jsstring \<Rightarrow> thrown + jsstring" where
  "callback reply secret =
     (case reply of
        Failure err \<Rightarrow>
          if code err = str ''DecryptionFailureException'' then Inl (StoreError err)
          else if code err = str ''InternalServiceErrorException'' then Inl (StoreError err)
          else if code err = str ''InvalidParameterException'' then Inl (StoreError err)
          else if code err = str ''InvalidRequestException'' then Inl (StoreError err)
          else if code err = str ''ResourceNotFoundException'' then Inl (StoreError err)
          else Inr secret
      | Success data \<Rightarrow>
          if has_SecretString data then Inr (nullish_or (SecretString data) [])
          else Inr (nullish_or (SecretBinary_text data) []))"

text \<open>
  The call \<open>client.getSecretValue({SecretId: secretName}, callback)\<close>, \<open>secretId\<close>
  being the name passed: with an immediate
  delivery the callback runs inside the call, and what it throws unwinds through the call;
  with a deferred delivery the call returns at once, \<open>secret\<close> is as it was, and the reply
  waits in \<open>pending\<close>.
\<close>

definition client_getSecretValue :: "runtime \<Rightarrow> jsstring \<Rightarrow> jsstring \<Rightarrow> state \<Rightarrow> jsstring outcome" where
  "client_getSecretValue rt secretId secret st =
     (case getSecretValue rt secretId of
        Immediate reply \<Rightarrow> (callback reply secret, st)
      | Deferred reply \<Rightarrow> (Inr secret, st\<lparr>pending := pending st @ [reply]\<rparr>))"

definition getSshKeyFromSecret :: "runtime \<Rightarrow> jsstring \<Rightarrow> state \<Rightarrow> unit outcome" where
  "getSshKeyFromSecret rt secretId st =
     (case client_getSecretValue rt secretId [] st of
        (Inl err, st1) \<Rightarrow> (Inl err, st1)
      | (Inr secret, st1) \<Rightarrow>
          (case JSON_parse rt secret of
             None \<Rightarrow> (Inl SyntaxError, st1)
           | Some JSON_null \<Rightarrow> (Inl TypeError, st1)
           | Some (JSON_value secretObject) \<Rightarrow>
               (Inr (),
                st1\<lparr>addon := (addon st1)\<lparr>bootstrapRepository :=
                  (bootstrapRepository (addon st1))
                    \<lparr>privateKey := secretObject (str ''private_key''),
                     publicKey := secretObject (str ''public_key''),
                     knownHosts := secretObject (str ''known_hosts'')\<rparr>\<rparr>\<rparr>)))"

text \<open>
  The later turns of the event loop run the callbacks of the pending replies, each with
  \<open>secret\<close> still empty; what they throw is thrown outside every \<open>try\<close> of the add-on.
\<close>

definition uncaught_later :: "state \<Rightarrow> thrown list" where
  "uncaught_later st =
     List.map_filter
       (\<lambda>reply. case callback reply [] of Inl err \<Rightarrow> Some err | Inr _ \<Rightarrow> None)
       (pending st)"

section \<open>Base64\<close>

text \<open>
  \<open>Buffer.from(contents, 'binary')\<close> keeps the low eight bits of every code unit;
  \<open>toString('base64')\<close> is the base64 of RFC 4648 with padding.
\<close>

definition Buffer_from_binary :: "jsstring \<Rightarrow> 8 word list" where
  "Buffer_from_binary contents = map ucast contents"

definition base64_alphabet :: jsstring where
  "base64_alphabet = str ''ABCDEFGHIJKLMNOPQRSTUVWXYZabcdefghijklmnopqrstuvwxyz0123456789+/''"

definition pad :: "16 word" where
  "pad = of_char CHR ''=''"

definition sextet_char :: "nat \<Rightarrow> 16 word" where
  "sextet_char n = base64_alphabet ! (n mod 64)"

fun Buffer_toString_base64 :: "8 word list \<Rightarrow> jsstring" where
  "Buffer_toString_base64 (a # b # c # rest) =
     [sextet_char (unat a div 4),
      sextet_char (unat a mod 4 * 16 + unat b div 16),
      sextet_char (unat b mod 16 * 4 + unat c div 64),
      sextet_char (unat c mod 64)] @ Buffer_toString_base64 rest"
| "Buffer_toString_base64 [a, b] =
     [sextet_char (unat a div 4),
      sextet_char (unat a mod 4 * 16 + unat b div 16),
      sextet_char (unat b mod 16 * 4),
      pad]"
| "Buffer_toString_base64 [a] =
     [sextet_char (unat a div 4),
      sextet_char (unat a mod 4 * 16),
      pad, pad]"
| "Buffer_toString_base64 [] = []"

definition base64EncodeContents :: "jsstring \<Rightarrow> jsstring" where
  "base64EncodeContents contents = Buffer_toString_base64 (Buffer_from_binary contents)"

text \<open>
  The decoder of RFC 4648, the inverse against which the encoding is checked: four
  characters give three bytes, and a last group padded with one or two \<open>=\<close> gives two
  bytes or one.
\<close>

definition char_sextet :: "16 word \<Rightarrow> nat option" where
  "char_sextet c = map_of (zip base64_alphabet [0..<64]) c"

definition decode_group :: "16 word \<Rightarrow> 16 word \<Rightarrow> 16 word \<Rightarrow> 16 word \<Rightarrow> 8 word list option" where
  "decode_group p q r s =
     (case (char_sextet p, char_sextet q) of
        (Some x, Some y) \<Rightarrow>
          if r = pad \<and> s = pad then Some [of_nat (x * 4 + y div 16)]
          else (case char_sextet r of
                  None \<Rightarrow> None
                | Some z \<Rightarrow>
                    if s = pad
                    then Some [of_nat (x * 4 + y div 16), of_nat (y mod 16 * 16 + z div 4)]
                    else (case char_sextet s of
                            None \<Rightarrow> None
                          | Some w \<Rightarrow>
                              Some [of_nat (x * 4 + y div 16),
                                    of_nat (y mod 16 * 16 + z div 4),
                                    of_nat (z mod 4 * 64 + w)]))
      | _ \<Rightarrow> None)"

fun base64_decode :: "jsstring \<Rightarrow> 8 word list option" where
  "base64_decode [] = Some []"
| "base64_decode (p # q # r # s # rest) =
     (case decode_group p q r s of
        None \<Rightarrow> None
      | Some bytes \<Rightarrow>
          if rest = [] then Some bytes
          else if length bytes = 3 then map_option ((@) bytes) (base64_decode rest)
          else None)"
| "base64_decode _ = None"

section \<open>The two deployment steps\<close>

text \<open>
  \<open>clusterInfo.cluster.addHelmChart(id, options)\<close>: the request is recorded as submitted,
  and the call returns or throws as the cluster decides. \<open>try_catch\<close> is the
  \<open>try { ... } catch (err) { ... }\<close> both steps consist of; \<open>deploy_try\<close> and
  \<open>postDeploy_try\<close> are their \<open>try\<close> blocks, and the handler of both is a
  \<open>console.error\<close> of a template literal, a fixed message with \<open>${err}\<close> appended. The
  literal converts \<open>err\<close> to a string before \<open>console.error\<close> is called; where that
  conversion throws, nothing is written and the exception leaves the handler, which no
  \<open>try\<close> encloses.
\<close>

definition cluster_addHelmChart :: "runtime \<Rightarrow> HelmChart \<Rightarrow> state \<Rightarrow> unit outcome" where
  "cluster_addHelmChart rt request st =
     (case addHelmChart rt request of
        None \<Rightarrow> (Inr (), st\<lparr>submitted := submitted st @ [request]\<rparr>)
      | Some err \<Rightarrow> (Inl err, st\<lparr>submitted := submitted st @ [request]\<rparr>))"

definition console_error :: "jsstring \<Rightarrow> thrown \<Rightarrow> state \<Rightarrow> unit outcome" where
  "console_error prefix err st =
     (case ToString_throws err of
        Some e \<Rightarrow> (Inl e, st)
      | None \<Rightarrow> (Inr (), st\<lparr>console := console st @ [Error_line prefix err]\<rparr>))"

definition try_catch :: "(state \<Rightarrow> unit outcome) \<Rightarrow> (thrown \<Rightarrow> state \<Rightarrow> unit outcome) \<Rightarrow> state \<Rightarrow> unit outcome" where
  "try_catch body handler st =
     (case body st of
        (Inl err, st1) \<Rightarrow> handler err st1
      | (Inr v, st1) \<Rightarrow> (Inr v, st1))"

definition core_chart :: "jsstring \<Rightarrow> HelmChart" where
  "core_chart ns =
     HelmChart (str ''weave-gitops-core'') (str ''wego-core'')
       (str ''https://murillodigital.github.io/wego-helm'') (str ''0.0.5'') ns None"

definition deploy_try :: "runtime \<Rightarrow> ClusterInfo \<Rightarrow> state \<Rightarrow> unit outcome" where
  "deploy_try rt clusterInfo st =
     cluster_addHelmChart rt (core_chart (namespace (addon st))) st"

definition deploy :: "runtime \<Rightarrow> ClusterInfo \<Rightarrow> state \<Rightarrow> unit outcome" where
  "deploy rt clusterInfo =
     try_catch (deploy_try rt clusterInfo)
       (console_error
          (str ''Unable to complete Weave GitOps AddOn Core deployment - aborting with error ''))"

definition application_chart :: "jsstring \<Rightarrow> ClusterInfo \<Rightarrow> BootstrapRepository \<Rightarrow> HelmChart" where
  "application_chart ns clusterInfo repo =
     HelmChart (str ''weave-gitops-application'') (str ''wego-app'')
       (str ''https://murillodigital.github.io/wego-helm'') (str ''0.0.1'') ns
       (Some [Application
                (clusterName clusterInfo)
                (URL repo)
                (base64EncodeContents (nullish_or (privateKey repo) []))
                (base64EncodeContents (nullish_or (knownHosts repo) []))
                (path repo)
                (branch repo)])"

definition postDeploy_try :: "runtime \<Rightarrow> ClusterInfo \<Rightarrow> 'team list \<Rightarrow> state \<Rightarrow> unit outcome" where
  "postDeploy_try rt clusterInfo teams st =
     (case (if truthy (secretName (bootstrapRepository (addon st)))
            then getSshKeyFromSecret rt
                   (nullish_or (secretName (bootstrapRepository (addon st))) []) st
            else (Inr (), st)) of
        (Inl err, st1) \<Rightarrow> (Inl err, st1)
      | (Inr _, st1) \<Rightarrow>
          if truthy (privateKey (bootstrapRepository (addon st1)))
             \<or> truthy (knownHosts (bootstrapRepository (addon st1)))
          then (Inl (Message (str
                  ''Required details for bootstrap repository access are missing, aborting'')), st1)
          else cluster_addHelmChart rt
                 (application_chart (namespace (addon st1)) clusterInfo
                    (bootstrapRepository (addon st1))) st1)"

definition postDeploy :: "runtime \<Rightarrow> ClusterInfo \<Rightarrow> 'team list \<Rightarrow> state \<Rightarrow> unit outcome" where
  "postDeploy rt clusterInfo teams =
     try_catch (postDeploy_try rt clusterInfo teams)
       (console_error
          (str ''Unable to complete Weave GitOps AddOn Bootstrapping - aborting with error ''))"

section \<open>Sample inputs\<close>

text \<open>
  The inputs the concrete runs below start from. \<open>JSON_parse_sample\<close> stands for
  \<open>JSON.parse\<close> on the two texts those runs parse: the secret bundle, which parses to an
  object with its three members, and the empty text, on which \<open>JSON.parse\<close> throws a
  SyntaxError. No run applies it to another text.
\<close>

definition secret_bundle :: jsstring where
  \<open>secret_bundle = str ''{"private_key":"A","public_key":"B","known_hosts":"C"}''\<close>

definition JSON_parse_sample :: "jsstring \<Rightarrow> json option" where
  "JSON_parse_sample text =
     (if text = secret_bundle
      then Some (JSON_value
             [str ''private_key'' \<mapsto> str ''A'',
              str ''public_key'' \<mapsto> str ''B'',
              str ''known_hosts'' \<mapsto> str ''C''])
      else None)"

definition runtime_sample :: "delivery \<Rightarrow> thrown option \<Rightarrow> runtime" where
  "runtime_sample d failure =
     \<lparr>JSON_parse = JSON_parse_sample,
      getSecretValue = (\<lambda>secretId. d),
      addHelmChart = (\<lambda>request. failure)\<rparr>"

definition repository_sample ::
  "jsstring option \<Rightarrow> jsstring option \<Rightarrow> jsstring option \<Rightarrow> BootstrapRepository" where
  "repository_sample sn pk kh =
     \<lparr>URL = str ''git@github.com:org/fleet.git'',
      branch = str ''main'',
      path = str ''clusters'',
      secretName = sn,
      privateKey = pk,
      publicKey = None,
      knownHosts = kh\<rparr>"

definition state_sample :: "BootstrapRepository \<Rightarrow> state" where
  "state_sample repo =
     \<lparr>addon = new_WeaveGitOpsAddOn repo None, submitted = [], console = [], pending = []\<rparr>"

definition cluster_sample :: ClusterInfo where
  "cluster_sample = \<lparr>clusterName = str ''prod''\<rparr>"

definition string_reply :: "jsstring \<Rightarrow> store_reply" where
  "string_reply text =
     Success \<lparr>has_SecretString = True, SecretString = Some text, SecretBinary_text = None\<rparr>"


section \<open>Base64: decoding inverts encoding\<close>

lemma alphabet_length: "length base64_alphabet = 64"
  by (simp add: base64_alphabet_def str_def)

lemma alphabet_distinct: "distinct base64_alphabet"
  by (simp add: base64_alphabet_def str_def)

lemma char_sextet_sextet_char: "n < 64 \<Longrightarrow> char_sextet (sextet_char n) = Some n"
proof -
  assume n: "n < 64"
  have "map_of (zip base64_alphabet [0..<64]) (base64_alphabet ! n) = Some ([0..<64] ! n)"
    by (rule map_of_zip_nth) (simp_all add: alphabet_length alphabet_distinct n)
  moreover have "[0..<64] ! n = n" using n by (simp del: upt_rec_numeral)
  ultimately show ?thesis using n by (simp add: char_sextet_def sextet_char_def del: upt_rec_numeral)
qed

lemma pad_not_in_alphabet: "pad \<notin> set base64_alphabet"
  by (simp add: base64_alphabet_def str_def pad_def)

lemma sextet_char_not_pad: "sextet_char n \<noteq> pad"
proof -
  have "n mod 64 < length base64_alphabet" by (simp add: alphabet_length)
  then have "base64_alphabet ! (n mod 64) \<in> set base64_alphabet" by (rule nth_mem)
  with pad_not_in_alphabet show ?thesis unfolding sextet_char_def by metis
qed

lemma byte_lt: "unat (a :: 8 word) < 256"
  using unsigned_less [of a, where ?'a = nat] by simp

lemma sextet1: "(b::nat) < 256 \<Longrightarrow> a mod 4 * 16 + b div 16 < 64"
proof -
  assume "b < 256"
  then have "b div 16 < 16" by simp
  moreover have "a mod 4 \<le> 3" by simp
  ultimately show ?thesis by linarith
qed

lemma sextet2: "(c::nat) < 256 \<Longrightarrow> b mod 16 * 4 + c div 64 < 64"
proof -
  assume "c < 256"
  then have "c div 64 < 4" by simp
  moreover have "b mod 16 \<le> 15" by simp
  ultimately show ?thesis by linarith
qed

lemma byte0: "(b::nat) < 256 \<Longrightarrow> a div 4 * 4 + (a mod 4 * 16 + b div 16) div 16 = a"
  by (simp add: div_mult2_eq [symmetric])

lemma byte1:
  "(b::nat) < 256 \<Longrightarrow> c < 256 \<Longrightarrow>
   (a mod 4 * 16 + b div 16) mod 16 * 16 + (b mod 16 * 4 + c div 64) div 4 = b"
  by (simp add: div_mult2_eq [symmetric])

lemma byte2: "(c::nat) < 256 \<Longrightarrow> (b mod 16 * 4 + c div 64) mod 4 * 64 + c mod 64 = c"
  by (simp add: div_mult2_eq [symmetric])

lemma decode_group_full:
  "x < 64 \<Longrightarrow> y < 64 \<Longrightarrow> z < 64 \<Longrightarrow> w < 64 \<Longrightarrow>
   decode_group (sextet_char x) (sextet_char y) (sextet_char z) (sextet_char w)
   = Some [of_nat (x * 4 + y div 16), of_nat (y mod 16 * 16 + z div 4), of_nat (z mod 4 * 64 + w)]"
  by (simp add: decode_group_def char_sextet_sextet_char sextet_char_not_pad)

lemma decode_group_pad1:
  "x < 64 \<Longrightarrow> y < 64 \<Longrightarrow> z < 64 \<Longrightarrow>
   decode_group (sextet_char x) (sextet_char y) (sextet_char z) pad
   = Some [of_nat (x * 4 + y div 16), of_nat (y mod 16 * 16 + z div 4)]"
  by (simp add: decode_group_def char_sextet_sextet_char sextet_char_not_pad)

lemma decode_group_pad2:
  "x < 64 \<Longrightarrow> y < 64 \<Longrightarrow>
   decode_group (sextet_char x) (sextet_char y) pad pad = Some [of_nat (x * 4 + y div 16)]"
  by (simp add: decode_group_def char_sextet_sextet_char)


lemma decode_group3:
  "decode_group (sextet_char (unat a div 4))
      (sextet_char (unat a mod 4 * 16 + unat b div 16))
      (sextet_char (unat b mod 16 * 4 + unat c div 64))
      (sextet_char (unat c mod 64)) = Some [a, b, (c :: 8 word)]"
proof -
  have s0: "unat a div 4 < 64" using byte_lt [of a] by simp
  have s3: "unat c mod 64 < 64" by simp
  show ?thesis
    unfolding decode_group_full [OF s0 sextet1 [OF byte_lt] sextet2 [OF byte_lt] s3]
    by (simp only: byte0 [OF byte_lt] byte1 [OF byte_lt byte_lt] byte2 [OF byte_lt]
        of_nat_unat ucast_id)
qed

lemma decode_group2:
  "decode_group (sextet_char (unat a div 4))
      (sextet_char (unat a mod 4 * 16 + unat b div 16))
      (sextet_char (unat b mod 16 * 4))
      pad = Some [a, (b :: 8 word)]"
proof -
  have s0: "unat a div 4 < 64" using byte_lt [of a] by simp
  have s2: "unat b mod 16 * 4 < 64" using sextet2 [of 0 "unat b"] by simp
  have b1: "(unat a mod 4 * 16 + unat b div 16) mod 16 * 16 + unat b mod 16 * 4 div 4 = unat b"
    using byte1 [OF byte_lt [of b], of 0 "unat a"] by simp
  show ?thesis
    unfolding decode_group_pad1 [OF s0 sextet1 [OF byte_lt] s2]
    by (simp only: byte0 [OF byte_lt] b1 of_nat_unat ucast_id)
qed

lemma decode_group1:
  "decode_group (sextet_char (unat a div 4)) (sextet_char (unat a mod 4 * 16)) pad pad
   = Some [a :: 8 word]"
proof -
  have s0: "unat a div 4 < 64" using byte_lt [of a] by simp
  have s1: "unat a mod 4 * 16 < 64" using sextet1 [of 0 "unat a"] by simp
  have b0: "unat a div 4 * 4 + unat a mod 4 * 16 div 16 = unat a"
    using byte0 [of 0 "unat a"] by simp
  show ?thesis
    unfolding decode_group_pad2 [OF s0 s1]
    by (simp only: b0 of_nat_unat ucast_id)
qed

lemma base64_decode_encode: "base64_decode (Buffer_toString_base64 bytes) = Some bytes"
proof (induction bytes rule: Buffer_toString_base64.induct)
  case (1 a b c rest)
  then show ?case
    by (cases "Buffer_toString_base64 rest = []") (simp_all add: decode_group3)
next
  case (2 a b)
  then show ?case by (simp add: decode_group2)
next
  case (3 a)
  then show ?case by (simp add: decode_group1)
next
  case 4
  then show ?case by simp
qed

lemma ucast_low_byte:
  assumes "c \<le> 0xFF"
  shows "(ucast (ucast (c :: 16 word) :: 8 word) :: 16 word) = c"
proof -
  have "unat c \<le> 255" using assms by (simp add: word_le_nat_alt)
  then have c: "unat c < 2 ^ 8" by simp
  have "unat (ucast (ucast c :: 8 word) :: 16 word) = take_bit 16 (take_bit 8 (unat c))"
    by (simp add: unsigned_ucast_eq unsigned_take_bit_eq)
  also have "\<dots> = unat c" using c by (simp add: take_bit_nat_eq_self)
  finally show ?thesis by (simp add: word_eq_iff_unsigned [where ?'a = nat])
qed

text \<open>
  C6, as the code has it. Decoding the output of \<open>base64EncodeContents\<close> yields the
  bytes that \<open>Buffer.from(contents, 'binary')\<close> made of the string, that is the low eight
  bits of every code unit; these are the string's own code units, one byte each, exactly
  when no code unit of the string exceeds \<open>0xFF\<close>.
\<close>

theorem base64EncodeContents_roundtrip:
  "base64_decode (base64EncodeContents contents) = Some (Buffer_from_binary contents)
   \<and> ((\<forall>c\<in>set contents. c \<le> 0xFF)
        \<longrightarrow> map ucast (Buffer_from_binary contents) = contents)"
  by (simp add: base64EncodeContents_def base64_decode_encode Buffer_from_binary_def
      ucast_low_byte map_idI)

theorem base64EncodeContents_roundtrip_witness:
  "list_all (\<lambda>c. c \<le> 0xFF) (str ''ssh-rsa AAAA'')
   \<and> base64_decode (base64EncodeContents (str ''ssh-rsa AAAA''))
       = Some (Buffer_from_binary (str ''ssh-rsa AAAA''))
   \<and> map ucast (Buffer_from_binary (str ''ssh-rsa AAAA'')) = str ''ssh-rsa AAAA''"
proof -
  have h: "list_all (\<lambda>c. c \<le> 0xFF) (str ''ssh-rsa AAAA'')"
    by (simp add: str_def)
  then have "\<forall>c\<in>set (str ''ssh-rsa AAAA''). c \<le> 0xFF"
    by (simp only: list_all_iff)
  with base64EncodeContents_roundtrip [of "str ''ssh-rsa AAAA''"] h
  show ?thesis by blast
qed

text \<open>
  C6, as stated, fails for a string with a code unit above \<open>0xFF\<close>: the one-unit string
  U+20AC is encoded as \<open>rA==\<close>, the very text that encodes the one-unit string U+00AC,
  and \<open>rA==\<close> decodes to the single byte \<open>0xAC\<close>.
\<close>

theorem base64EncodeContents_truncates:
  "base64EncodeContents [0x20AC] = str ''rA==''
   \<and> base64EncodeContents [0xAC] = str ''rA==''
   \<and> base64_decode (str ''rA=='') = Some [0xAC]"
proof -
  have enc: "Buffer_toString_base64 [0xAC] = str ''rA==''"
    by (simp add: sextet_char_def base64_alphabet_def str_def pad_def)
  have "base64_decode (Buffer_toString_base64 [0xAC]) = Some [0xAC]"
    by (rule base64_decode_encode)
  then have "base64_decode (str ''rA=='') = Some [0xAC]"
    by (simp only: enc)
  moreover have "Buffer_from_binary [0x20AC] = [0xAC]" "Buffer_from_binary [0xAC] = [0xAC]"
    by (simp_all add: Buffer_from_binary_def)
  ultimately show ?thesis
    by (simp only: base64EncodeContents_def enc)
qed

section \<open>The resolver and the two steps\<close>

lemma client_getSecretValue_frame:
  assumes "client_getSecretValue rt secretId secret st = (r, st1)"
  shows "addon st1 = addon st \<and> submitted st1 = submitted st \<and> console st1 = console st"
  using assms by (auto simp add: client_getSecretValue_def split: delivery.splits)

lemma getSshKeyFromSecret_frame:
  assumes "getSshKeyFromSecret rt secretId st = (r, st')"
  shows "namespace (addon st') = namespace (addon st)
    \<and> URL (bootstrapRepository (addon st')) = URL (bootstrapRepository (addon st))
    \<and> branch (bootstrapRepository (addon st')) = branch (bootstrapRepository (addon st))
    \<and> path (bootstrapRepository (addon st')) = path (bootstrapRepository (addon st))
    \<and> secretName (bootstrapRepository (addon st')) = secretName (bootstrapRepository (addon st))
    \<and> submitted st' = submitted st
    \<and> console st' = console st"
proof (cases "client_getSecretValue rt secretId [] st")
  case (Pair r1 st1)
  note frame = client_getSecretValue_frame [OF Pair]
  show ?thesis
  proof (cases r1)
    case (Inl err)
    with Pair assms frame show ?thesis by (simp add: getSshKeyFromSecret_def)
  next
    case (Inr secret)
    with Pair assms frame show ?thesis
      by (auto simp add: getSshKeyFromSecret_def split: option.splits json.splits)
  qed
qed

lemma getSshKeyFromSecret_throws_frame:
  assumes "getSshKeyFromSecret rt secretId st = (Inl err, st')"
  shows "addon st' = addon st"
proof (cases "client_getSecretValue rt secretId [] st")
  case (Pair r1 st1)
  note frame = client_getSecretValue_frame [OF Pair]
  show ?thesis
  proof (cases r1)
    case (Inl err)
    with Pair assms frame show ?thesis by (simp add: getSshKeyFromSecret_def)
  next
    case (Inr secret)
    with Pair assms frame show ?thesis
      by (auto simp add: getSshKeyFromSecret_def split: option.splits json.splits)
  qed
qed

lemma deferred_resolution_throws:
  assumes "getSecretValue rt secretId = Deferred reply" and "JSON_parse rt [] = None"
  shows "getSshKeyFromSecret rt secretId st = (Inl SyntaxError, st\<lparr>pending := pending st @ [reply]\<rparr>)"
  using assms by (simp add: getSshKeyFromSecret_def client_getSecretValue_def)

lemma cluster_addHelmChart_effect:
  "fst (cluster_addHelmChart rt request st) = (case addHelmChart rt request of None \<Rightarrow> Inr () | Some err \<Rightarrow> Inl err)
   \<and> snd (cluster_addHelmChart rt request st) = st\<lparr>submitted := submitted st @ [request]\<rparr>"
  by (simp add: cluster_addHelmChart_def split: option.splits)

lemma try_catch_console_error:
  "try_catch body (console_error prefix) st =
     (case body st of
        (Inl err, st1) \<Rightarrow>
          (case ToString_throws err of
             Some e \<Rightarrow> (Inl e, st1)
           | None \<Rightarrow> (Inr (), st1\<lparr>console := console st1 @ [Error_line prefix err]\<rparr>))
      | (Inr v, st1) \<Rightarrow> (Inr v, st1))"
  by (simp add: try_catch_def console_error_def split: prod.splits sum.splits)






text \<open>
  C7. \<open>deploy\<close> submits exactly one install request: named \<open>weave-gitops-core\<close>, chart
  \<open>wego-core\<close>, the fixed repository URL, version \<open>0.0.5\<close>, the add-on's namespace and no
  values. It leaves the add-on as it was, and its result, the requests it submits and the
  lines it logs are the same whatever bootstrap repository the add-on holds.
\<close>

theorem deploy_submits_core_chart:
  "submitted (snd (deploy rt clusterInfo st)) = submitted st @
      [HelmChart (str ''weave-gitops-core'') (str ''wego-core'')
         (str ''https://murillodigital.github.io/wego-helm'') (str ''0.0.5'')
         (namespace (addon st)) None]
   \<and> addon (snd (deploy rt clusterInfo st)) = addon st
   \<and> fst (deploy rt clusterInfo (st\<lparr>addon := (addon st)\<lparr>bootstrapRepository := repo\<rparr>\<rparr>))
       = fst (deploy rt clusterInfo st)
   \<and> submitted (snd (deploy rt clusterInfo (st\<lparr>addon := (addon st)\<lparr>bootstrapRepository := repo\<rparr>\<rparr>)))
       = submitted (snd (deploy rt clusterInfo st))
   \<and> console (snd (deploy rt clusterInfo (st\<lparr>addon := (addon st)\<lparr>bootstrapRepository := repo\<rparr>\<rparr>)))
       = console (snd (deploy rt clusterInfo st))"
  by (cases "addHelmChart rt (core_chart (namespace (addon st)))")
     (simp_all add: deploy_def try_catch_console_error deploy_try_def cluster_addHelmChart_def
        core_chart_def split: option.splits)

lemma postDeploy_submitted:
  "submitted (snd (postDeploy rt clusterInfo teams st))
     = submitted (snd (postDeploy_try rt clusterInfo teams st))"
  by (simp add: postDeploy_def try_catch_console_error
      split: prod.splits sum.splits option.splits)

lemma postDeploy_try_submitted:
  "submitted (snd (postDeploy_try rt clusterInfo teams st)) = submitted st
   \<or> (\<exists>repo. URL repo = URL (bootstrapRepository (addon st))
          \<and> submitted (snd (postDeploy_try rt clusterInfo teams st))
              = submitted st @ [application_chart (namespace (addon st)) clusterInfo repo])"
proof (cases "truthy (secretName (bootstrapRepository (addon st)))")
  case False
  then show ?thesis
    by (auto simp add: postDeploy_try_def cluster_addHelmChart_effect)
next
  case True
  obtain r st1 where g: "getSshKeyFromSecret rt
      (nullish_or (secretName (bootstrapRepository (addon st))) []) st = (r, st1)"
    by (cases "getSshKeyFromSecret rt
      (nullish_or (secretName (bootstrapRepository (addon st))) []) st")
  note frame = getSshKeyFromSecret_frame [OF g]
  show ?thesis
  proof (cases r)
    case (Inl err)
    with True g frame show ?thesis by (simp add: postDeploy_try_def)
  next
    case (Inr v)
    with True g frame show ?thesis
      by (auto simp add: postDeploy_try_def cluster_addHelmChart_effect)
  qed
qed

text \<open>
  C8. Whenever \<open>postDeploy\<close> submits a request, it submits one, the bootstrap request,
  whose values hold a one-element list of applications, with the cluster's name as
  \<open>applicationName\<close> and the repository's \<open>URL\<close>, unmodified, as \<open>gitRepository\<close>.
\<close>

theorem postDeploy_request_names_cluster_and_repository:
  assumes "submitted (snd (postDeploy rt clusterInfo teams st)) \<noteq> submitted st"
  shows "\<exists>request app.
           submitted (snd (postDeploy rt clusterInfo teams st)) = submitted st @ [request]
           \<and> chart_id request = str ''weave-gitops-application''
           \<and> chart_values request = Some [app]
           \<and> applicationName app = clusterName clusterInfo
           \<and> gitRepository app = URL (bootstrapRepository (addon st))"
proof -
  from assms postDeploy_try_submitted [of rt clusterInfo teams st]
  obtain repo where u: "URL repo = URL (bootstrapRepository (addon st))"
    and s: "submitted (snd (postDeploy rt clusterInfo teams st))
              = submitted st @ [application_chart (namespace (addon st)) clusterInfo repo]"
    by (auto simp add: postDeploy_submitted)
  show ?thesis
    using s u by (simp add: application_chart_def)
qed

text \<open>
  A run that submits the bootstrap request: no secret name, no credentials.
\<close>

theorem postDeploy_request_names_cluster_and_repository_witness:
  "submitted (snd (postDeploy (runtime_sample (Deferred (string_reply secret_bundle)) None) cluster_sample
       ([] :: unit list) (state_sample (repository_sample None None None))))
     \<noteq> submitted (state_sample (repository_sample None None None))
   \<and> (\<exists>request app.
           submitted (snd (postDeploy (runtime_sample (Deferred (string_reply secret_bundle)) None) cluster_sample
             ([] :: unit list) (state_sample (repository_sample None None None))))
             = submitted (state_sample (repository_sample None None None)) @ [request]
           \<and> chart_id request = str ''weave-gitops-application''
           \<and> chart_values request = Some [app]
           \<and> applicationName app = clusterName cluster_sample
           \<and> gitRepository app = URL (bootstrapRepository (addon (state_sample (repository_sample None None None)))))"
proof -
  let ?rt = "runtime_sample (Deferred (string_reply secret_bundle)) None"
  let ?st = "state_sample (repository_sample None None None)"
  have h: "submitted (snd (postDeploy ?rt cluster_sample ([] :: unit list) ?st)) \<noteq> submitted ?st"
    by (simp add: postDeploy_submitted postDeploy_try_def cluster_addHelmChart_def runtime_sample_def
        state_sample_def repository_sample_def new_WeaveGitOpsAddOn_def truthy_def)
  from postDeploy_request_names_cluster_and_repository [OF h] h show ?thesis by blast
qed

text \<open>
  C9. A resolution that returns normally has assigned \<open>privateKey\<close>, \<open>publicKey\<close> and
  \<open>knownHosts\<close> from the members \<open>private_key\<close>, \<open>public_key\<close> and \<open>known_hosts\<close> of the
  parsed secret, and nothing else: \<open>URL\<close>, \<open>branch\<close>, \<open>path\<close>, \<open>secretName\<close>, the
  namespace, the submitted requests and the console are as before. The method returns no
  value (its result type is \<open>unit\<close>).
\<close>

theorem getSshKeyFromSecret_mutates_three_fields:
  assumes "getSshKeyFromSecret rt secretId st = (Inr v, st')"
  shows "(\<exists>secret secretObject.
            JSON_parse rt secret = Some (JSON_value secretObject)
            \<and> bootstrapRepository (addon st') = (bootstrapRepository (addon st))
                 \<lparr>privateKey := secretObject (str ''private_key''),
                  publicKey := secretObject (str ''public_key''),
                  knownHosts := secretObject (str ''known_hosts'')\<rparr>)
    \<and> URL (bootstrapRepository (addon st')) = URL (bootstrapRepository (addon st))
    \<and> branch (bootstrapRepository (addon st')) = branch (bootstrapRepository (addon st))
    \<and> path (bootstrapRepository (addon st')) = path (bootstrapRepository (addon st))
    \<and> secretName (bootstrapRepository (addon st')) = secretName (bootstrapRepository (addon st))
    \<and> namespace (addon st') = namespace (addon st)
    \<and> submitted st' = submitted st
    \<and> console st' = console st"
proof -
  obtain r1 st1 where c: "client_getSecretValue rt secretId [] st = (r1, st1)"
    by (cases "client_getSecretValue rt secretId [] st")
  note frame = client_getSecretValue_frame [OF c]
  have "\<exists>secret secretObject.
            JSON_parse rt secret = Some (JSON_value secretObject)
            \<and> bootstrapRepository (addon st') = (bootstrapRepository (addon st))
                 \<lparr>privateKey := secretObject (str ''private_key''),
                  publicKey := secretObject (str ''public_key''),
                  knownHosts := secretObject (str ''known_hosts'')\<rparr>"
  proof (cases r1)
    case (Inl err)
    with c assms show ?thesis by (simp add: getSshKeyFromSecret_def)
  next
    case (Inr secret)
    with c assms frame show ?thesis
      by (auto simp add: getSshKeyFromSecret_def split: option.splits json.splits) blast
  qed
  with getSshKeyFromSecret_frame [OF assms] show ?thesis by simp
qed

text \<open>
  The secret bundle, delivered by a store that runs the callback inside the call.
\<close>

lemma getSshKeyFromSecret_immediate_bundle:
  "getSshKeyFromSecret (runtime_sample (Immediate (string_reply secret_bundle)) None)
       (str ''wego-ssh'') (state_sample (repository_sample (Some (str ''wego-ssh'')) None None))
     = (Inr (),
        (state_sample (repository_sample (Some (str ''wego-ssh'')) None None))
          \<lparr>addon := (addon (state_sample (repository_sample (Some (str ''wego-ssh'')) None None)))
             \<lparr>bootstrapRepository := (repository_sample (Some (str ''wego-ssh'')) None None)
                \<lparr>privateKey := Some (str ''A''), publicKey := Some (str ''B''),
                 knownHosts := Some (str ''C'')\<rparr>\<rparr>\<rparr>)"
  by (simp add: getSshKeyFromSecret_def client_getSecretValue_def callback_def runtime_sample_def
      string_reply_def nullish_or_def JSON_parse_sample_def state_sample_def new_WeaveGitOpsAddOn_def
      str_def)

theorem getSshKeyFromSecret_mutates_three_fields_witness:
  "fst (getSshKeyFromSecret (runtime_sample (Immediate (string_reply secret_bundle)) None)
       (str ''wego-ssh'') (state_sample (repository_sample (Some (str ''wego-ssh'')) None None)))
     = Inr ()
   \<and> bootstrapRepository (addon (snd (getSshKeyFromSecret
         (runtime_sample (Immediate (string_reply secret_bundle)) None)
         (str ''wego-ssh'') (state_sample (repository_sample (Some (str ''wego-ssh'')) None None)))))
     = \<lparr>URL = str ''git@github.com:org/fleet.git'',
        branch = str ''main'',
        path = str ''clusters'',
        secretName = Some (str ''wego-ssh''),
        privateKey = Some (str ''A''),
        publicKey = Some (str ''B''),
        knownHosts = Some (str ''C'')\<rparr>
   \<and> URL (bootstrapRepository (addon (snd (getSshKeyFromSecret
         (runtime_sample (Immediate (string_reply secret_bundle)) None)
         (str ''wego-ssh'') (state_sample (repository_sample (Some (str ''wego-ssh'')) None None))))))
     = URL (bootstrapRepository (addon
         (state_sample (repository_sample (Some (str ''wego-ssh'')) None None))))
   \<and> secretName (bootstrapRepository (addon (snd (getSshKeyFromSecret
         (runtime_sample (Immediate (string_reply secret_bundle)) None)
         (str ''wego-ssh'') (state_sample (repository_sample (Some (str ''wego-ssh'')) None None))))))
     = secretName (bootstrapRepository (addon
         (state_sample (repository_sample (Some (str ''wego-ssh'')) None None))))"
proof -
  note h = getSshKeyFromSecret_immediate_bundle
  from getSshKeyFromSecret_mutates_three_fields [OF h]
  have "URL (bootstrapRepository (addon (snd (getSshKeyFromSecret
         (runtime_sample (Immediate (string_reply secret_bundle)) None)
         (str ''wego-ssh'') (state_sample (repository_sample (Some (str ''wego-ssh'')) None None))))))
     = URL (bootstrapRepository (addon
         (state_sample (repository_sample (Some (str ''wego-ssh'')) None None))))"
    and "secretName (bootstrapRepository (addon (snd (getSshKeyFromSecret
         (runtime_sample (Immediate (string_reply secret_bundle)) None)
         (str ''wego-ssh'') (state_sample (repository_sample (Some (str ''wego-ssh'')) None None))))))
     = secretName (bootstrapRepository (addon
         (state_sample (repository_sample (Some (str ''wego-ssh'')) None None))))"
    by (simp_all add: h)
  moreover have "bootstrapRepository (addon (snd (getSshKeyFromSecret
         (runtime_sample (Immediate (string_reply secret_bundle)) None)
         (str ''wego-ssh'') (state_sample (repository_sample (Some (str ''wego-ssh'')) None None)))))
     = \<lparr>URL = str ''git@github.com:org/fleet.git'',
        branch = str ''main'',
        path = str ''clusters'',
        secretName = Some (str ''wego-ssh''),
        privateKey = Some (str ''A''),
        publicKey = Some (str ''B''),
        knownHosts = Some (str ''C'')\<rparr>"
    by (simp only: h) (simp add: repository_sample_def)
  moreover have "fst (getSshKeyFromSecret (runtime_sample (Immediate (string_reply secret_bundle)) None)
       (str ''wego-ssh'') (state_sample (repository_sample (Some (str ''wego-ssh'')) None None)))
     = Inr ()"
    by (simp only: h fst_conv)
  ultimately show ?thesis by blast
qed

text \<open>
  C10. When \<open>JSON.parse\<close> throws on the text that the resolver parses, the resolver
  throws that SyntaxError and the add-on, its repository descriptor included, is exactly
  as before the call: the three assignments come after the parse.
\<close>

theorem getSshKeyFromSecret_parse_failure_keeps_repository:
  assumes "client_getSecretValue rt secretId [] st = (Inr secret, st1)"
    and "JSON_parse rt secret = None"
  shows "fst (getSshKeyFromSecret rt secretId st) = Inl SyntaxError
    \<and> addon (snd (getSshKeyFromSecret rt secretId st)) = addon st"
  using assms client_getSecretValue_frame [OF assms(1)]
  by (simp add: getSshKeyFromSecret_def)

text \<open>
  A store that holds an empty secret string, and a repository with a private key set
  beforehand: the key is still there after the failed resolution.
\<close>

theorem getSshKeyFromSecret_parse_failure_keeps_repository_witness:
  "client_getSecretValue (runtime_sample (Immediate (string_reply [])) None) (str ''wego-ssh'') []
       (state_sample (repository_sample (Some (str ''wego-ssh'')) (Some (str ''OLD'')) None))
     = (Inr [], state_sample (repository_sample (Some (str ''wego-ssh'')) (Some (str ''OLD'')) None))
   \<and> JSON_parse (runtime_sample (Immediate (string_reply [])) None) [] = None
   \<and> fst (getSshKeyFromSecret (runtime_sample (Immediate (string_reply [])) None) (str ''wego-ssh'')
        (state_sample (repository_sample (Some (str ''wego-ssh'')) (Some (str ''OLD'')) None)))
       = Inl SyntaxError
   \<and> bootstrapRepository (addon (snd (getSshKeyFromSecret (runtime_sample (Immediate (string_reply [])) None)
        (str ''wego-ssh'') (state_sample (repository_sample (Some (str ''wego-ssh'')) (Some (str ''OLD'')) None)))))
       = repository_sample (Some (str ''wego-ssh'')) (Some (str ''OLD'')) None"
proof -
  let ?rt = "runtime_sample (Immediate (string_reply [])) None"
  let ?st = "state_sample (repository_sample (Some (str ''wego-ssh'')) (Some (str ''OLD'')) None)"
  have h1: "client_getSecretValue ?rt (str ''wego-ssh'') [] ?st = (Inr [], ?st)"
    by (simp add: client_getSecretValue_def callback_def runtime_sample_def string_reply_def
        nullish_or_def)
  have h2: "JSON_parse ?rt [] = None"
    by (simp add: runtime_sample_def JSON_parse_sample_def secret_bundle_def str_def)
  from getSshKeyFromSecret_parse_failure_keeps_repository [OF h1 h2] h1 h2 show ?thesis
    by (simp add: state_sample_def new_WeaveGitOpsAddOn_def)
qed

text \<open>
  C1, at a repository without secret name. With both \<open>privateKey\<close> and \<open>knownHosts\<close>
  present, \<open>postDeploy\<close> throws its "details are missing" message, logs it and submits
  nothing; with both empty, it submits the bootstrap request, with empty credentials. The
  test \<open>!!privateKey || !!knownHosts\<close> is the negation of the one its message describes.
\<close>

theorem postDeploy_validation_inverted:
  "postDeploy rt cluster_sample teams
       (state_sample (repository_sample None (Some (str ''KEY'')) (Some (str ''HOSTS''))))
     = (Inr (),
        (state_sample (repository_sample None (Some (str ''KEY'')) (Some (str ''HOSTS''))))
          \<lparr>console := [Error_line
             (str ''Unable to complete Weave GitOps AddOn Bootstrapping - aborting with error '')
             (Message (str ''Required details for bootstrap repository access are missing, aborting''))]\<rparr>)
   \<and> postDeploy (runtime_sample d None) cluster_sample teams
       (state_sample (repository_sample None (Some []) (Some [])))
     = (Inr (),
        (state_sample (repository_sample None (Some []) (Some [])))
          \<lparr>submitted := [HelmChart (str ''weave-gitops-application'') (str ''wego-app'')
             (str ''https://murillodigital.github.io/wego-helm'') (str ''0.0.1'') (str ''wego-system'')
             (Some [Application (str ''prod'') (str ''git@github.com:org/fleet.git'') [] []
                      (str ''clusters'') (str ''main'')])]\<rparr>)"
proof -
  have t: "str ''KEY'' \<noteq> []" by (simp add: str_def)
  have e: "base64EncodeContents [] = []" by (simp add: base64EncodeContents_def Buffer_from_binary_def)
  show ?thesis
    by (simp add: postDeploy_def try_catch_console_error postDeploy_try_def t e
        state_sample_def repository_sample_def new_WeaveGitOpsAddOn_def truthy_def nullish_or_def
        cluster_addHelmChart_def runtime_sample_def application_chart_def cluster_sample_def)
qed

text \<open>
  C5, at a repository without secret name and with both credentials present: the secret
  store is not called (no reply is pending), and no install request is submitted either.
\<close>

theorem postDeploy_with_credentials_submits_nothing:
  "submitted (snd (postDeploy rt cluster_sample teams
       (state_sample (repository_sample None (Some (str ''KEY'')) (Some (str ''HOSTS'')))))) = []
   \<and> pending (snd (postDeploy rt cluster_sample teams
       (state_sample (repository_sample None (Some (str ''KEY'')) (Some (str ''HOSTS'')))))) = []"
proof -
  have t: "str ''KEY'' \<noteq> []" by (simp add: str_def)
  show ?thesis
    by (simp add: postDeploy_def try_catch_console_error postDeploy_try_def t
        state_sample_def repository_sample_def new_WeaveGitOpsAddOn_def truthy_def)
qed

text \<open>
  C2, with a store that delivers the secret bundle in a later turn of the event loop: the
  resolver parses the still empty \<open>secret\<close>, throws the SyntaxError, and leaves the three
  fields unset; the reply is still pending when it has thrown.
\<close>

theorem getSshKeyFromSecret_parses_before_reply:
  "getSshKeyFromSecret (runtime_sample (Deferred (string_reply secret_bundle)) None)
       (str ''wego-ssh'') (state_sample (repository_sample (Some (str ''wego-ssh'')) None None))
     = (Inl SyntaxError,
        (state_sample (repository_sample (Some (str ''wego-ssh'')) None None))
          \<lparr>pending := [string_reply secret_bundle]\<rparr>)
   \<and> bootstrapRepository (addon (snd (getSshKeyFromSecret
         (runtime_sample (Deferred (string_reply secret_bundle)) None)
         (str ''wego-ssh'') (state_sample (repository_sample (Some (str ''wego-ssh'')) None None)))))
     = repository_sample (Some (str ''wego-ssh'')) None None"
proof -
  let ?rt = "runtime_sample (Deferred (string_reply secret_bundle)) None"
  have g: "getSecretValue ?rt (str ''wego-ssh'') = Deferred (string_reply secret_bundle)"
    by (simp add: runtime_sample_def)
  have p: "JSON_parse ?rt [] = None"
    by (simp add: runtime_sample_def JSON_parse_sample_def secret_bundle_def str_def)
  show ?thesis
    by (simp add: deferred_resolution_throws [OF g p] state_sample_def new_WeaveGitOpsAddOn_def)
qed

text \<open>
  C3, with a store that reports \<open>ResourceNotFoundException\<close> in a later turn of the event
  loop: what \<open>postDeploy\<close> catches and logs is the SyntaxError of parsing the empty text,
  raised before the store has replied; the store's error is thrown by the callback
  afterwards, outside the \<open>try\<close> of \<open>postDeploy\<close>.
\<close>

theorem postDeploy_store_error_thrown_later:
  "postDeploy (runtime_sample (Deferred (Failure (AWSError (str ''ResourceNotFoundException'')))) None)
       cluster_sample teams (state_sample (repository_sample (Some (str ''wego-ssh'')) None None))
     = (Inr (),
        (state_sample (repository_sample (Some (str ''wego-ssh'')) None None))
          \<lparr>console := [Error_line
             (str ''Unable to complete Weave GitOps AddOn Bootstrapping - aborting with error '')
             SyntaxError],
           pending := [Failure (AWSError (str ''ResourceNotFoundException''))]\<rparr>)
   \<and> uncaught_later (snd (postDeploy
         (runtime_sample (Deferred (Failure (AWSError (str ''ResourceNotFoundException'')))) None)
         cluster_sample teams (state_sample (repository_sample (Some (str ''wego-ssh'')) None None))))
     = [StoreError (AWSError (str ''ResourceNotFoundException''))]"
proof -
  let ?reply = "Failure (AWSError (str ''ResourceNotFoundException''))"
  let ?rt = "runtime_sample (Deferred ?reply) None"
  let ?st = "state_sample (repository_sample (Some (str ''wego-ssh'')) None None)"
  have g: "getSecretValue ?rt (str ''wego-ssh'') = Deferred ?reply"
    by (simp add: runtime_sample_def)
  have p: "JSON_parse ?rt [] = None"
    by (simp add: runtime_sample_def JSON_parse_sample_def secret_bundle_def str_def)
  have t: "truthy (secretName (bootstrapRepository (addon ?st)))"
    and n: "nullish_or (secretName (bootstrapRepository (addon ?st))) [] = str ''wego-ssh''"
    by (simp_all add: state_sample_def repository_sample_def new_WeaveGitOpsAddOn_def truthy_def
        nullish_or_def str_def)
  have run: "postDeploy ?rt cluster_sample teams ?st
     = (Inr (), ?st\<lparr>console := [Error_line
             (str ''Unable to complete Weave GitOps AddOn Bootstrapping - aborting with error '')
             SyntaxError], pending := [?reply]\<rparr>)"
    by (simp add: postDeploy_def try_catch_console_error postDeploy_try_def t n
        deferred_resolution_throws [OF g p])
       (simp add: state_sample_def)
  have later: "callback ?reply [] = Inl (StoreError (AWSError (str ''ResourceNotFoundException'')))"
    by (simp add: callback_def)
  show ?thesis
    by (simp add: run uncaught_later_def later)
qed

text \<open>
  Without a secret name, for every repository: the request is submitted exactly when
  neither credential is present, and the secret store is never called.
\<close>

lemma postDeploy_without_secretName:
  assumes "\<not> truthy (secretName (bootstrapRepository (addon st)))"
  shows "submitted (snd (postDeploy rt clusterInfo teams st)) =
           (if truthy (privateKey (bootstrapRepository (addon st)))
               \<or> truthy (knownHosts (bootstrapRepository (addon st)))
            then submitted st
            else submitted st @ [application_chart (namespace (addon st)) clusterInfo
                                   (bootstrapRepository (addon st))])"
    and "pending (snd (postDeploy rt clusterInfo teams st)) = pending st"
  using assms
  by (simp_all add: postDeploy_def try_catch_console_error postDeploy_try_def
      cluster_addHelmChart_def split: option.splits)

end
